theory Spec2Isabelle
  imports Complex_Main "HOL-Library.Multiset" "HOL-Library.Char_ord" "HOL-Library.List_Lexorder"
begin

section \<open>Numbers\<close>

text \<open>
  JavaScript numbers are modelled as the real numbers: \<open>Math.sin\<close>, \<open>Math.cos\<close> and
  \<open>Math.sqrt\<close> are \<^const>\<open>sin\<close>, \<^const>\<open>cos\<close> and \<^const>\<open>sqrt\<close>, and
  \<open>Math.PI\<close> is \<^const>\<open>pi\<close>. Rounding of IEEE doubles is not modelled. A number that
  is \<open>undefined\<close> (a missing field) is \<open>None\<close>; arithmetic on it yields \<open>NaN\<close>, which is
  \<open>None\<close> as well, and every comparison with \<open>NaN\<close> is false.
\<close>

text \<open>\<open>Math.atan2(y, x)\<close> on reals (signed zeros are not distinguished).\<close>

definition atan2 :: "real \<Rightarrow> real \<Rightarrow> real" where
  "atan2 y x =
     (if 0 < x then arctan (y / x)
      else if x < 0 then (if 0 \<le> y then arctan (y / x) + pi else arctan (y / x) - pi)
      else if 0 < y then pi / 2
      else if y < 0 then - (pi / 2)
      else 0)"

section \<open>DistanceCalculator\<close>

subsection \<open>Client: \<open>src/utils/geoUtils.js\<close>\<close>

definition toRad :: "real \<Rightarrow> real" where
  "toRad v = (v * pi) / 180"

definition calculateDistance_client :: "real \<Rightarrow> real \<Rightarrow> real \<Rightarrow> real \<Rightarrow> real" where
  "calculateDistance_client lat1 lon1 lat2 lon2 =
     (let R = 3959;
          dLat = toRad (lat2 - lat1);
          dLon = toRad (lon2 - lon1);
          a = sin (dLat / 2) * sin (dLat / 2) +
              cos (toRad lat1) * cos (toRad lat2) * sin (dLon / 2) * sin (dLon / 2);
          c = 2 * atan2 (sqrt a) (sqrt (1 - a))
      in R * c)"

subsection \<open>Server: the Cloud Function's helper\<close>

definition calculateDistance_server :: "real \<Rightarrow> real \<Rightarrow> real \<Rightarrow> real \<Rightarrow> real" where
  "calculateDistance_server lat1 lon1 lat2 lon2 =
     (let R = 3963.0;
          lat1Rad = (lat1 * pi) / 180;
          lat2Rad = (lat2 * pi) / 180;
          latDiff = ((lat2 - lat1) * pi) / 180;
          lonDiff = ((lon2 - lon1) * pi) / 180;
          a = sin (latDiff / 2) * sin (latDiff / 2) +
              cos lat1Rad * cos lat2Rad * sin (lonDiff / 2) * sin (lonDiff / 2);
          c = 2 * atan2 (sqrt a) (sqrt (1 - a))
      in R * c)"

section \<open>NotificationFanoutDispatcher (the Cloud Function)\<close>

subsection \<open>Documents\<close>

text \<open>
  A Firestore map \<open>{latitude, longitude}\<close>. Documents have no schema, so either field
  may be absent (\<open>None\<close>, JavaScript's \<open>undefined\<close>).
\<close>

record geo =
  latitude :: "real option"
  longitude :: "real option"

text \<open>The data of a document of a \<open>tokens\<close> sub-collection (\<open>users/{uid}/tokens/{id}\<close>).\<close>

record tokenData =
  token :: string
  location :: "geo option"
  searchRadius :: "real option"

record tokenDoc =
  owner :: string
  docId :: string
  tokenDoc_data :: tokenData

definition ref :: "tokenDoc \<Rightarrow> string \<times> string" where
  "ref d = (owner d, docId d)"

text \<open>
  The created \<open>saleEvents/{eventId}\<close> document. \<open>startDateText\<close> stands for
  \<open>new Date(saleEvent.startDate).toLocaleDateString()\<close>, whose rendering depends on the
  host's locale.
\<close>

record saleEvent =
  eventId :: string
  title :: string
  startDateText :: string
  event_location :: "geo option"

record message =
  msg_token :: string
  msg_title :: string
  msg_body :: string
  msg_eventId :: string
  msg_click_action :: string
  msg_link :: string

datatype send_result = Delivered | Failed "string option"

datatype console_line = Log string string | Error "string option"

text \<open>
  The state the function works on: the documents of the collection group \<open>tokens\<close>
  in query order, every message handed to \<open>messaging.send\<close>, and the console.
\<close>

record dstate =
  store :: "tokenDoc list"
  outbox :: "message list"
  console :: "console_line list"

datatype js_error = TypeError

subsection \<open>JavaScript truthiness and comparison\<close>

text \<open>A number is falsy when it is \<open>undefined\<close>, \<open>null\<close>, \<open>NaN\<close> or \<open>0\<close>.\<close>

definition truthy_num :: "real option \<Rightarrow> bool" where
  "truthy_num v = (case v of None \<Rightarrow> False | Some x \<Rightarrow> x \<noteq> 0)"

text \<open>A string is falsy when it is \<open>undefined\<close>, \<open>null\<close> or empty.\<close>

definition truthy_str :: "string option \<Rightarrow> bool" where
  "truthy_str v = (case v of None \<Rightarrow> False | Some x \<Rightarrow> x \<noteq> [])"

text \<open>A distance function applied to arguments that may be \<open>undefined\<close>: the result is
  \<open>NaN\<close> (\<open>None\<close>) as soon as one of them is.\<close>

definition js_apply4 ::
  "(real \<Rightarrow> real \<Rightarrow> real \<Rightarrow> real \<Rightarrow> real) \<Rightarrow>
   real option \<Rightarrow> real option \<Rightarrow> real option \<Rightarrow> real option \<Rightarrow> real option" where
  "js_apply4 f a b c d =
     (case a of None \<Rightarrow> None | Some a' \<Rightarrow>
      case b of None \<Rightarrow> None | Some b' \<Rightarrow>
      case c of None \<Rightarrow> None | Some c' \<Rightarrow>
      case d of None \<Rightarrow> None | Some d' \<Rightarrow> Some (f a' b' c' d'))"

text \<open>\<open>x <= r\<close> where \<open>x\<close> may be \<open>NaN\<close>.\<close>

definition js_le :: "real option \<Rightarrow> real \<Rightarrow> bool" where
  "js_le x r = (case x of None \<Rightarrow> False | Some v \<Rightarrow> v \<le> r)"

subsection \<open>\<open>sendNotificationToUser\<close>\<close>

definition make_message :: "string \<Rightarrow> saleEvent \<Rightarrow> message" where
  "make_message tok ev =
     \<lparr> msg_token = tok,
       msg_title = ''New Sale Event Nearby!'',
       msg_body = title ev @ '' starting at '' @ startDateText ev,
       msg_eventId = eventId ev,
       msg_click_action = ''FLUTTER_NOTIFICATION_CLICK'',
       msg_link = ''/event/'' @ eventId ev \<rparr>"

text \<open>\<open>doc.ref.delete()\<close>: the document at that path is gone.\<close>

definition delete_doc :: "dstate \<Rightarrow> tokenDoc \<Rightarrow> dstate" where
  "delete_doc s d = s\<lparr>store := filter (\<lambda>e. ref e \<noteq> ref d) (store s)\<rparr>"

text \<open>
  \<open>messaging\<close> is the push service: it answers each message with delivery or with an
  error carrying an optional \<open>code\<close>. The store operations themselves are taken to
  succeed.
\<close>

definition sendNotificationToUser ::
  "(message \<Rightarrow> send_result) \<Rightarrow> string \<Rightarrow> saleEvent \<Rightarrow> dstate \<Rightarrow> dstate" where
  "sendNotificationToUser messaging tok ev s =
     (let msg = make_message tok ev;
          s1 = s\<lparr>outbox := outbox s @ [msg]\<rparr>
      in case messaging msg of
           Delivered \<Rightarrow>
             s1\<lparr>console := console s1 @ [Log ''Successfully sent notification to token:'' tok]\<rparr>
         | Failed code \<Rightarrow>
             (let s2 = s1\<lparr>console := console s1 @ [Error code]\<rparr>
              in if code = Some ''messaging/registration-token-not-registered''
                 then (let tokenDocs = filter (\<lambda>d. token (tokenDoc_data d) = tok) (store s2)
                       in foldl delete_doc s2 tokenDocs)
                 else s2))"

subsection \<open>\<open>onNewSaleEvent\<close>\<close>

text \<open>The callback mapped over the token documents.\<close>

definition notifyToken ::
  "(message \<Rightarrow> send_result) \<Rightarrow> saleEvent \<Rightarrow> tokenDoc \<Rightarrow> dstate \<Rightarrow> (js_error + unit) \<times> dstate" where
  "notifyToken messaging ev tokenDoc s =
     (let td = tokenDoc_data tokenDoc
      in case location td of
           None \<Rightarrow> (Inr (), s)
         | Some loc \<Rightarrow>
             if \<not> truthy_num (searchRadius td) then (Inr (), s)
             else (case event_location ev of
                     None \<Rightarrow> (Inl TypeError, s)
                   | Some evloc \<Rightarrow>
                       (let distance = js_apply4 calculateDistance_server
                                         (latitude loc) (longitude loc)
                                         (latitude evloc) (longitude evloc)
                        in case searchRadius td of
                             None \<Rightarrow> (Inr (), s)
                           | Some r \<Rightarrow>
                               if js_le distance r
                               then (Inr (), sendNotificationToUser messaging (token td) ev s)
                               else (Inr (), s))))"

text \<open>
  The callbacks run over the documents read at the start. A callback that throws rejects
  its own promise only; the others still run.
\<close>

fun notifyAll ::
  "(message \<Rightarrow> send_result) \<Rightarrow> saleEvent \<Rightarrow> tokenDoc list \<Rightarrow> dstate \<Rightarrow>
   (js_error + unit) list \<times> dstate" where
  "notifyAll messaging ev [] s = ([], s)"
| "notifyAll messaging ev (d # ds) s =
     (case notifyToken messaging ev d s of
        (r, s') \<Rightarrow> (case notifyAll messaging ev ds s' of (rs, s'') \<Rightarrow> (r # rs, s'')))"

text \<open>\<open>Promise.all\<close>: rejected as soon as one promise is.\<close>

fun Promise_all :: "(js_error + unit) list \<Rightarrow> js_error + unit" where
  "Promise_all [] = Inr ()"
| "Promise_all (Inl e # rs) = Inl e"
| "Promise_all (Inr u # rs) = Promise_all rs"

definition onNewSaleEvent ::
  "(message \<Rightarrow> send_result) \<Rightarrow> saleEvent \<Rightarrow> dstate \<Rightarrow> (js_error + unit) \<times> dstate" where
  "onNewSaleEvent messaging ev s =
     (let tokenDocs = store s
      in case notifyAll messaging ev tokenDocs s of (rs, s') \<Rightarrow> (Promise_all rs, s'))"

text \<open>
  The two tests of the callback on their own: the guard on the registration, and, for a
  listing with a location, the guard together with the distance test.
\<close>

definition passes_guard :: "tokenData \<Rightarrow> bool" where
  "passes_guard td = (location td \<noteq> None \<and> truthy_num (searchRadius td))"

definition attempts :: "geo \<Rightarrow> tokenData \<Rightarrow> bool" where
  "attempts evloc td =
     (case location td of
        None \<Rightarrow> False
      | Some loc \<Rightarrow>
          truthy_num (searchRadius td) \<and>
          (case searchRadius td of
             None \<Rightarrow> False
           | Some r \<Rightarrow> js_le (js_apply4 calculateDistance_server
                                 (latitude loc) (longitude loc)
                                 (latitude evloc) (longitude evloc)) r))"

text \<open>The tokens whose delivery the push service answers with the endpoint-invalid code.\<close>

definition not_registered :: "(message \<Rightarrow> send_result) \<Rightarrow> saleEvent \<Rightarrow> string \<Rightarrow> bool" where
  "not_registered messaging ev tok =
     (messaging (make_message tok ev) = Failed (Some ''messaging/registration-token-not-registered''))"

text \<open>
  The condition of the specification for notifying a registration of a listing at
  \<open>(a, b)\<close>: it has a location and a radius, and the distance is at most the radius.
\<close>

definition should_notify :: "real \<Rightarrow> real \<Rightarrow> tokenData \<Rightarrow> bool" where
  "should_notify a b td =
     (case location td of
        None \<Rightarrow> False
      | Some loc \<Rightarrow>
          (case (latitude loc, longitude loc, searchRadius td) of
             (Some x, Some y, Some r) \<Rightarrow> calculateDistance_server x y a b \<le> r
           | _ \<Rightarrow> False))"

section \<open>LocationTracker (\<open>fetchLocation\<close> in the Home page)\<close>

text \<open>The \<open>coordinates\<close> state: \<open>{latitude, longitude}\<close> taken from \<open>position.coords\<close>.\<close>

record position =
  pos_latitude :: real
  pos_longitude :: real

text \<open>
  What the updater passed to \<open>setCoordinates\<close> returns: a fresh object, or the previous
  state itself. React re-runs the effects that depend on \<open>coordinates\<close> only when the
  returned value is not the previous object.
\<close>

datatype next_coordinates = Replace position | Keep

definition onSuccess_updater :: "position option \<Rightarrow> position \<Rightarrow> next_coordinates" where
  "onSuccess_updater prev p =
     (case prev of
        None \<Rightarrow> Replace p
      | Some q \<Rightarrow>
          if calculateDistance_client (pos_latitude q) (pos_longitude q)
               (pos_latitude p) (pos_longitude p) > 0.1
          then Replace p
          else Keep)"

definition setCoordinates :: "position option \<Rightarrow> next_coordinates \<Rightarrow> position option" where
  "setCoordinates prev n = (case n of Replace p \<Rightarrow> Some p | Keep \<Rightarrow> prev)"

definition onSuccess :: "position option \<Rightarrow> position \<Rightarrow> position option" where
  "onSuccess prev p = setCoordinates prev (onSuccess_updater prev p)"

section \<open>LiveFeedSynchronizer (the \<open>onSnapshot\<close> listener of the Home page)\<close>

text \<open>A document of the \<open>sales\<close> collection, as far as the listener reads it.\<close>

record sale =
  sale_id :: string
  sale_location :: "geo option"
  address :: "string option"

text \<open>An element of \<open>updatedSales\<close>: the sale with its rounded distance and address.\<close>

record entry =
  entry_sale :: sale
  distance :: real
  entry_address :: "string option"

text \<open>\<open>Math.round(x * 10) / 10\<close>; \<open>Math.round\<close> rounds halves up.\<close>

definition round1 :: "real \<Rightarrow> real" where
  "round1 x = real_of_int \<lfloor>x * 10 + 1 / 2\<rfloor> / 10"

text \<open>
  The callback of \<open>snapshot.forEach\<close> is an \<open>async\<close> function, and \<open>forEach\<close> does
  not wait for what it returns. The callback runs up to its first \<open>await\<close>, which is
  reached only when \<open>sale.address\<close> is falsy; so a sale with an address is pushed at once,
  and a sale without one is pushed when the geocoder has answered, after the listener has
  sorted and published the array.
\<close>

datatype doc_outcome = Skipped | Pushed entry | Awaiting sale real

definition processDoc :: "position \<Rightarrow> real \<Rightarrow> sale \<Rightarrow> doc_outcome" where
  "processDoc coordinates radius s =
     (let saleLocation = (case sale_location s of
                            Some l \<Rightarrow> l
                          | None \<Rightarrow> \<lparr>latitude = None, longitude = None\<rparr>)
      in if \<not> truthy_num (latitude saleLocation) \<or> \<not> truthy_num (longitude saleLocation)
         then Skipped
         else (case js_apply4 calculateDistance_client
                      (Some (pos_latitude coordinates)) (Some (pos_longitude coordinates))
                      (latitude saleLocation) (longitude saleLocation) of
                 None \<Rightarrow> Skipped
               | Some d \<Rightarrow>
                   if d \<le> radius
                   then (if truthy_str (address s)
                         then Pushed \<lparr>entry_sale = s, distance = round1 d,
                                      entry_address = address s\<rparr>
                         else Awaiting s d)
                   else Skipped))"

fun pushed :: "doc_outcome list \<Rightarrow> entry list" where
  "pushed [] = []"
| "pushed (Pushed e # os) = e # pushed os"
| "pushed (_ # os) = pushed os"


text \<open>\<open>updatedSales\<close> when \<open>forEach\<close> has returned.\<close>

definition updatedSales :: "position \<Rightarrow> real \<Rightarrow> sale list \<Rightarrow> entry list" where
  "updatedSales coordinates radius snapshot = pushed (map (processDoc coordinates radius) snapshot)"

text \<open>
  \<open>updatedSales.sort((a, b) => a.distance - b.distance)\<close>, a stable sort, and then
  \<open>setSales(updatedSales)\<close>: the array as it is at the moment of \<open>setSales\<close>.
\<close>

definition published :: "position \<Rightarrow> real \<Rightarrow> sale list \<Rightarrow> entry list" where
  "published coordinates radius snapshot =
     sort_key distance (updatedSales coordinates radius snapshot)"


text \<open>The listener's test on the coordinates of a sale: both present and truthy.\<close>

definition nonzero_coordinates :: "sale \<Rightarrow> bool" where
  "nonzero_coordinates s =
     (case sale_location s of
        None \<Rightarrow> False
      | Some l \<Rightarrow> truthy_num (latitude l) \<and> truthy_num (longitude l))"

text \<open>The distance of a sale from the tracked location, when the sale has both coordinates.\<close>

definition distance_from :: "position \<Rightarrow> sale \<Rightarrow> real option" where
  "distance_from coordinates s =
     (case sale_location s of
        None \<Rightarrow> None
      | Some l \<Rightarrow> js_apply4 calculateDistance_client
                    (Some (pos_latitude coordinates)) (Some (pos_longitude coordinates))
                    (latitude l) (longitude l))"

text \<open>
  The feed as the specification words it: a listing belongs to it when it has coordinates
  and its distance is at most the radius.
\<close>

definition spec_in_feed :: "position \<Rightarrow> real \<Rightarrow> sale \<Rightarrow> bool" where
  "spec_in_feed coordinates radius s =
     (case distance_from coordinates s of None \<Rightarrow> False | Some d \<Rightarrow> d \<le> radius)"




section \<open>BoundsEstimator (\<open>calculateMapBounds\<close> in the Home page)\<close>

text \<open>
  A quotient may be infinite or \<open>NaN\<close> where the divisor is \<open>0\<close>; \<open>Math.min\<close> and
  \<open>Math.max\<close> are written out for such a second argument.
\<close>

datatype num = Num real | Infinity | NegInfinity | NaN

definition js_divide :: "real \<Rightarrow> real \<Rightarrow> num" where
  "js_divide x y =
     (if y \<noteq> 0 then Num (x / y)
      else if 0 < x then Infinity
      else if x < 0 then NegInfinity
      else NaN)"

fun Math_min :: "real \<Rightarrow> num \<Rightarrow> num" where
  "Math_min a (Num b) = Num (min a b)"
| "Math_min a Infinity = Num a"
| "Math_min a NegInfinity = NegInfinity"
| "Math_min a NaN = NaN"

fun Math_max :: "real \<Rightarrow> num \<Rightarrow> num" where
  "Math_max a (Num b) = Num (max a b)"
| "Math_max a Infinity = Infinity"
| "Math_max a NegInfinity = Num a"
| "Math_max a NaN = NaN"

text \<open>The two corners handed to \<open>L.latLngBounds\<close>, each \<open>(latitude, longitude)\<close>.\<close>

record latLngBounds =
  corner1 :: "real \<times> real"
  corner2 :: "real \<times> real"

definition calculateMapBounds :: "position \<Rightarrow> real \<Rightarrow> latLngBounds option" where
  "calculateMapBounds center radius =
     (let milesPerDegreeAtEquator = 69.172;
          latOffset = radius / milesPerDegreeAtEquator;
          latitudeRadians = pos_latitude center * (pi / 180);
          lngOffset = js_divide radius (milesPerDegreeAtEquator * cos latitudeRadians);
          minOffset = Math_max 0.001 (Math_min latOffset lngOffset)
      in case minOffset of
           Num m \<Rightarrow>
             Some \<lparr> corner1 = (pos_latitude center - m, pos_longitude center - m),
                    corner2 = (pos_latitude center + m, pos_longitude center + m) \<rparr>
         | _ \<Rightarrow> None)"

text \<open>
  The viewport as the specification words it: the rectangle in which the circle is
  inscribed, \<open>radius / 69.172\<close> degrees of latitude and \<open>radius / (69.172 * cos latitude)\<close>
  degrees of longitude to each side of the center, neither less than the floor.
\<close>

definition spec_bounds :: "position \<Rightarrow> real \<Rightarrow> latLngBounds" where
  "spec_bounds center radius =
     (let latOffset = max 0.001 (radius / 69.172);
          lngOffset = max 0.001 (radius / (69.172 * cos (pos_latitude center * (pi / 180))))
      in \<lparr> corner1 = (pos_latitude center - latOffset, pos_longitude center - lngOffset),
            corner2 = (pos_latitude center + latOffset, pos_longitude center + lngOffset) \<rparr>)"

definition contains :: "latLngBounds \<Rightarrow> real \<times> real \<Rightarrow> bool" where
  "contains b p =
     (fst (corner1 b) \<le> fst p \<and> fst p \<le> fst (corner2 b) \<and>
      snd (corner1 b) \<le> snd p \<and> snd p \<le> snd (corner2 b))"

section \<open>Auxiliary terms of the haversine formula\<close>

text \<open>The haversine term \<open>a\<close> shared by both functions, and the angle \<open>c\<close>.\<close>

definition hav_a :: "real \<Rightarrow> real \<Rightarrow> real \<Rightarrow> real \<Rightarrow> real" where
  "hav_a lat1 lon1 lat2 lon2 =
     sin (toRad (lat2 - lat1) / 2) * sin (toRad (lat2 - lat1) / 2) +
     cos (toRad lat1) * cos (toRad lat2) * sin (toRad (lon2 - lon1) / 2) * sin (toRad (lon2 - lon1) / 2)"

definition hav_c :: "real \<Rightarrow> real" where
  "hav_c a = 2 * atan2 (sqrt a) (sqrt (1 - a))"

section \<open>Example data\<close>

text \<open>
  A tracked location, sales around it and on the equator, positions for the tracker,
  a map center, and registrations, events and a push service for the dispatcher.
\<close>

definition ex_here :: position where
  "ex_here = \<lparr>pos_latitude = 10, pos_longitude = 20\<rparr>"

definition sale_north :: sale where
  "sale_north = \<lparr>sale_id = ''a'', sale_location = Some \<lparr>latitude = Some 10.0005, longitude = Some 20\<rparr>,
                  address = Some ''1 Elm St''\<rparr>"

definition sale_here :: sale where
  "sale_here = \<lparr>sale_id = ''b'', sale_location = Some \<lparr>latitude = Some 10, longitude = Some 20\<rparr>,
                 address = Some ''2 Oak St''\<rparr>"


definition sale_far :: sale where
  "sale_far = \<lparr>sale_id = ''f'', sale_location = Some \<lparr>latitude = Some 11, longitude = Some 20\<rparr>,
                address = Some ''9 Far Rd''\<rparr>"

definition ex_equator :: position where
  "ex_equator = \<lparr>pos_latitude = 0, pos_longitude = 5\<rparr>"

definition sale_equator :: sale where
  "sale_equator = \<lparr>sale_id = ''c'', sale_location = Some \<lparr>latitude = Some 0, longitude = Some 5\<rparr>,
                    address = Some ''3 Line Rd''\<rparr>"

definition ex_jitter :: position where
  "ex_jitter = \<lparr>pos_latitude = 10.0005, pos_longitude = 20\<rparr>"

definition ex_moved :: position where
  "ex_moved = \<lparr>pos_latitude = 11, pos_longitude = 20\<rparr>"

definition ex_center :: position where
  "ex_center = \<lparr>pos_latitude = 60, pos_longitude = 0\<rparr>"

definition ex_event :: saleEvent where
  "ex_event = \<lparr>eventId = ''e1'', title = ''Yard sale'', startDateText = ''6/1/2025'',
               event_location = Some \<lparr>latitude = Some 0, longitude = Some 180\<rparr>\<rparr>"

definition ex_event_unlocated :: saleEvent where
  "ex_event_unlocated = \<lparr>eventId = ''e2'', title = ''Yard sale'', startDateText = ''6/1/2025'',
               event_location = None\<rparr>"

definition reg_edge :: tokenDoc where
  "reg_edge = \<lparr>owner = ''u1'', docId = ''tA'',
                tokenDoc_data = \<lparr>token = ''tA'', location = Some \<lparr>latitude = Some 0, longitude = Some 0\<rparr>,
                                  searchRadius = Some (3963 * pi)\<rparr>\<rparr>"

definition reg_unlocated :: tokenDoc where
  "reg_unlocated = \<lparr>owner = ''u2'', docId = ''tB'',
                tokenDoc_data = \<lparr>token = ''tB'', location = None, searchRadius = Some 10\<rparr>\<rparr>"

definition reg_far :: tokenDoc where
  "reg_far = \<lparr>owner = ''u3'', docId = ''tC'',
                tokenDoc_data = \<lparr>token = ''tC'', location = Some \<lparr>latitude = Some 0, longitude = Some 0\<rparr>,
                                  searchRadius = Some 10\<rparr>\<rparr>"

definition reg_no_radius :: tokenDoc where
  "reg_no_radius = \<lparr>owner = ''u4'', docId = ''tD'',
                tokenDoc_data = \<lparr>token = ''tD'', location = Some \<lparr>latitude = Some 0, longitude = Some 180\<rparr>,
                                  searchRadius = None\<rparr>\<rparr>"

definition ex_state :: dstate where
  "ex_state = \<lparr>store = [reg_edge, reg_unlocated, reg_far, reg_no_radius], outbox = [], console = []\<rparr>"

definition ex_messaging :: "message \<Rightarrow> send_result" where
  "ex_messaging msg =
     (if msg_token msg = ''dead'' then Failed (Some ''messaging/registration-token-not-registered'')
      else if msg_token msg = ''flaky'' then Failed (Some ''messaging/internal-error'')
      else Delivered)"

definition reg_dead1 :: tokenDoc where
  "reg_dead1 = \<lparr>owner = ''u1'', docId = ''dead'',
                tokenDoc_data = \<lparr>token = ''dead'', location = Some \<lparr>latitude = Some 0, longitude = Some 180\<rparr>,
                                  searchRadius = Some 10\<rparr>\<rparr>"

definition reg_flaky :: tokenDoc where
  "reg_flaky = \<lparr>owner = ''u2'', docId = ''flaky'',
                tokenDoc_data = \<lparr>token = ''flaky'', location = Some \<lparr>latitude = Some 0, longitude = Some 180\<rparr>,
                                  searchRadius = Some 10\<rparr>\<rparr>"

definition reg_dead2 :: tokenDoc where
  "reg_dead2 = \<lparr>owner = ''u3'', docId = ''dead'',
                tokenDoc_data = \<lparr>token = ''dead'', location = None, searchRadius = Some 25\<rparr>\<rparr>"

definition reg_live :: tokenDoc where
  "reg_live = \<lparr>owner = ''u4'', docId = ''live'',
                tokenDoc_data = \<lparr>token = ''live'', location = Some \<lparr>latitude = Some 0, longitude = Some 180\<rparr>,
                                  searchRadius = Some 5\<rparr>\<rparr>"

definition ex_fanout :: dstate where
  "ex_fanout = \<lparr>store = [reg_dead1, reg_flaky, reg_dead2, reg_live], outbox = [], console = []\<rparr>"

section \<open>Properties of the distance functions\<close>

lemma calculateDistance_client_hav:
  "calculateDistance_client lat1 lon1 lat2 lon2 = 3959 * hav_c (hav_a lat1 lon1 lat2 lon2)"
  by (simp add: calculateDistance_client_def hav_a_def hav_c_def Let_def)

lemma calculateDistance_server_hav:
  "calculateDistance_server lat1 lon1 lat2 lon2 = 3963 * hav_c (hav_a lat1 lon1 lat2 lon2)"
  by (simp add: calculateDistance_server_def hav_a_def hav_c_def toRad_def Let_def)

lemma hav_a_sym: "hav_a lat1 lon1 lat2 lon2 = hav_a lat2 lon2 lat1 lon1"
proof -
  have flip: "toRad (x - y) / 2 = - (toRad (y - x) / 2)" for x y
    by (simp add: toRad_def left_diff_distrib diff_divide_distrib)
  show ?thesis
    unfolding hav_a_def flip [of lat2 lat1] flip [of lon2 lon1]
    by (simp add: mult.commute)
qed

lemma hav_a_self: "hav_a lat lon lat lon = 0"
  by (simp add: hav_a_def toRad_def)

lemma hav_c_0: "hav_c 0 = 0"
  by (simp add: hav_c_def atan2_def)

lemma hav_c_1: "hav_c 1 = pi"
  by (simp add: hav_c_def atan2_def)

text \<open>
  The term \<open>a\<close> always lies between 0 and 1, so neither \<open>Math.sqrt(a)\<close> nor
  \<open>Math.sqrt(1 - a)\<close> is taken of a negative number.
\<close>

lemma hav_a_alt:
  "hav_a lat1 lon1 lat2 lon2 =
     1 / 2 - (cos (toRad (lon2 - lon1) / 2))\<^sup>2 * cos (toRad lat2 - toRad lat1) / 2
           + (sin (toRad (lon2 - lon1) / 2))\<^sup>2 * cos (toRad lat2 + toRad lat1) / 2"
proof -
  let ?u = "toRad lat1" and ?v = "toRad lat2" and ?w = "toRad (lon2 - lon1) / 2"
  have d: "toRad (lat2 - lat1) / 2 = (?v - ?u) / 2"
    by (simp add: toRad_def left_diff_distrib diff_divide_distrib)
  have s: "sin ((?v - ?u) / 2) * sin ((?v - ?u) / 2) = (1 - cos (?v - ?u)) / 2"
  proof -
    have "2 * ((?v - ?u) / 2) = ?v - ?u" by simp
    then have "cos (?v - ?u) = 1 - 2 * (sin ((?v - ?u) / 2))\<^sup>2"
      using cos_double_sin [of "(?v - ?u) / 2"] by (simp only:)
    then show ?thesis by (simp add: power2_eq_square)
  qed
  have p: "cos ?u * cos ?v = (cos (?v - ?u) + cos (?v + ?u)) / 2"
    by (simp add: cos_add cos_diff)
  have c: "(cos ?w)\<^sup>2 = 1 - (sin ?w)\<^sup>2" by (rule cos_squared_eq)
  have "hav_a lat1 lon1 lat2 lon2 = (1 - cos (?v - ?u)) / 2 + (cos ?u * cos ?v) * (sin ?w)\<^sup>2"
    unfolding hav_a_def d s by (simp add: power2_eq_square)
  also have "\<dots> = 1 / 2 - (cos ?w)\<^sup>2 * cos (?v - ?u) / 2 + (sin ?w)\<^sup>2 * cos (?v + ?u) / 2"
    unfolding p c by (simp add: field_simps)
  finally show ?thesis .
qed

lemma hav_a_range: "0 \<le> hav_a lat1 lon1 lat2 lon2 \<and> hav_a lat1 lon1 lat2 lon2 \<le> 1"
proof -
  let ?C = "(cos (toRad (lon2 - lon1) / 2))\<^sup>2" and ?S = "(sin (toRad (lon2 - lon1) / 2))\<^sup>2"
  let ?x = "cos (toRad lat2 - toRad lat1)" and ?y = "cos (toRad lat2 + toRad lat1)"
  have cs: "?C + ?S = 1" by (simp add: add.commute)
  have C0: "0 \<le> ?C" and S0: "0 \<le> ?S" by simp_all
  have x: "- 1 \<le> ?x" "?x \<le> 1" and y: "- 1 \<le> ?y" "?y \<le> 1" by simp_all
  have a1: "?C * ?x \<le> ?C * 1" using C0 x(2) by (rule mult_left_mono[rotated])
  have a2: "?C * (- 1) \<le> ?C * ?x" using C0 x(1) by (rule mult_left_mono[rotated])
  have b1: "?S * ?y \<le> ?S * 1" using S0 y(2) by (rule mult_left_mono[rotated])
  have b2: "?S * (- 1) \<le> ?S * ?y" using S0 y(1) by (rule mult_left_mono[rotated])
  show ?thesis
    unfolding hav_a_alt using a1 a2 b1 b2 cs by linarith
qed

lemma calculateDistance_client_self: "calculateDistance_client x y x y = 0"
  by (simp add: calculateDistance_client_hav hav_a_self hav_c_0)

lemma calculateDistance_server_self: "calculateDistance_server x y x y = 0"
  by (simp add: calculateDistance_server_hav hav_a_self hav_c_0)

lemma hav_a_antipode: "hav_a 0 0 0 180 = 1"
  by (simp add: hav_a_def toRad_def)

lemma server_antipode: "calculateDistance_server 0 0 0 180 = 3963 * pi"
  by (simp add: calculateDistance_server_hav hav_a_antipode hav_c_1)

lemma client_antipode: "calculateDistance_client 0 0 0 180 = 3959 * pi"
  by (simp add: calculateDistance_client_hav hav_a_antipode hav_c_1)

lemma hav_a_meridian: "hav_a lat1 lon lat2 lon = (sin (toRad (lat2 - lat1) / 2))\<^sup>2"
  by (simp add: hav_a_def toRad_def power2_eq_square)

lemma hav_c_sin2:
  assumes "0 \<le> x" "x < pi / 2"
  shows "hav_c ((sin x)\<^sup>2) = 2 * x"
proof -
  have c: "0 < cos x" using assms by (simp add: cos_gt_zero_pi)
  have s: "0 \<le> sin x" using assms by (simp add: sin_ge_zero)
  have "1 - (sin x)\<^sup>2 = (cos x)\<^sup>2" by (simp add: cos_squared_eq)
  then have "sqrt (1 - (sin x)\<^sup>2) = cos x" using c by simp
  moreover have "sqrt ((sin x)\<^sup>2) = sin x" using s by simp
  moreover have "arctan (sin x / cos x) = x"
    using arctan_tan [of x] assms by (simp add: tan_def)
  ultimately show ?thesis using c by (simp add: hav_c_def atan2_def)
qed

lemma calculateDistance_client_meridian:
  assumes "0 \<le> lat2 - lat1" "lat2 - lat1 < 180"
  shows "calculateDistance_client lat1 lon lat2 lon = 3959 * toRad (lat2 - lat1)"
proof -
  have "0 \<le> toRad (lat2 - lat1) / 2" using assms by (simp add: toRad_def)
  moreover have "toRad (lat2 - lat1) / 2 < pi / 2" using assms by (simp add: toRad_def)
  ultimately show ?thesis
    by (simp add: calculateDistance_client_hav hav_a_meridian hav_c_sin2)
qed

text \<open>
  C9. For every pair of coordinates the distance from a to b equals the distance from b to
  a, and the distance from a coordinate to itself is 0; both hold for the client function
  and for the server function.
\<close>

theorem distance_symmetric_and_zero_on_self:
  "calculateDistance_client lat1 lon1 lat2 lon2 = calculateDistance_client lat2 lon2 lat1 lon1
   \<and> calculateDistance_client lat1 lon1 lat1 lon1 = 0
   \<and> calculateDistance_server lat1 lon1 lat2 lon2 = calculateDistance_server lat2 lon2 lat1 lon1
   \<and> calculateDistance_server lat1 lon1 lat1 lon1 = 0"
  by (simp add: calculateDistance_client_hav calculateDistance_server_hav hav_a_self hav_c_0
      hav_a_sym [of lat1 lon1 lat2 lon2])

text \<open>
  C3. The two distance functions do not share one Earth radius: the server function
  multiplies the haversine angle by 3963.0 and the client function by 3959. For every pair
  of coordinates 3959 times the server's distance is 3963 times the client's, so the two
  agree only where the distance is 0. From (0, 0) to (0, 180) the server returns
  \<open>3963 * pi\<close> and the client \<open>3959 * pi\<close>.
\<close>

theorem earth_radius_constants_differ:
  "3959 * calculateDistance_server lat1 lon1 lat2 lon2 =
     3963 * calculateDistance_client lat1 lon1 lat2 lon2
   \<and> calculateDistance_server 0 0 0 180 = 3963 * pi
   \<and> calculateDistance_client 0 0 0 180 = 3959 * pi
   \<and> calculateDistance_server 0 0 0 180 \<noteq> calculateDistance_client 0 0 0 180"
  by (simp add: server_antipode client_antipode)
     (simp add: calculateDistance_client_hav calculateDistance_server_hav)

section \<open>Properties of the dispatcher\<close>

lemma foldl_delete_doc:
  "store (foldl delete_doc s ds) = filter (\<lambda>e. ref e \<notin> ref ` set ds) (store s)
   \<and> outbox (foldl delete_doc s ds) = outbox s
   \<and> console (foldl delete_doc s ds) = console s"
proof (induction ds arbitrary: s)
  case Nil
  show ?case by simp
next
  case (Cons d ds)
  have "filter (\<lambda>e. ref e \<notin> ref ` set ds) (filter (\<lambda>e. ref e \<noteq> ref d) (store s))
        = filter (\<lambda>e. ref e \<notin> ref ` set (d # ds)) (store s)"
    by (induction "store s") auto
  then show ?case using Cons.IH [of "delete_doc s d"]
    by (simp add: delete_doc_def)
qed

lemma outbox_sendNotificationToUser:
  "outbox (sendNotificationToUser m tok ev s) = outbox s @ [make_message tok ev]"
  by (simp add: sendNotificationToUser_def Let_def foldl_delete_doc
      split: send_result.split)

lemma console_sendNotificationToUser:
  "console (sendNotificationToUser m tok ev s) =
     console s @ [case m (make_message tok ev) of
                    Delivered \<Rightarrow> Log ''Successfully sent notification to token:'' tok
                  | Failed code \<Rightarrow> Error code]"
  by (simp add: sendNotificationToUser_def Let_def foldl_delete_doc split: send_result.split)

lemma store_sendNotificationToUser_other:
  assumes "m (make_message tok ev) \<noteq> Failed (Some ''messaging/registration-token-not-registered'')"
  shows "store (sendNotificationToUser m tok ev s) = store s"
  using assms by (simp add: sendNotificationToUser_def Let_def split: send_result.split)

lemma store_sendNotificationToUser_pruned:
  assumes "m (make_message tok ev) = Failed (Some ''messaging/registration-token-not-registered'')"
  shows "store (sendNotificationToUser m tok ev s)
         = filter (\<lambda>e. ref e \<notin> ref ` {d \<in> set (store s). token (tokenDoc_data d) = tok}) (store s)"
  using assms by (simp add: sendNotificationToUser_def Let_def foldl_delete_doc)

lemma prune_distinct:
  assumes "distinct (map ref st)"
  shows "filter (\<lambda>e. ref e \<notin> ref ` {d \<in> set st. token (tokenDoc_data d) = tok}) st
         = filter (\<lambda>e. token (tokenDoc_data e) \<noteq> tok) st"
proof (rule filter_cong [OF refl])
  fix e assume e: "e \<in> set st"
  have inj: "inj_on ref (set st)" using assms by (simp add: distinct_map)
  show "(ref e \<notin> ref ` {d \<in> set st. token (tokenDoc_data d) = tok}) = (token (tokenDoc_data e) \<noteq> tok)"
  proof
    assume "ref e \<notin> ref ` {d \<in> set st. token (tokenDoc_data d) = tok}"
    then show "token (tokenDoc_data e) \<noteq> tok" using e by auto
  next
    assume ne: "token (tokenDoc_data e) \<noteq> tok"
    show "ref e \<notin> ref ` {d \<in> set st. token (tokenDoc_data d) = tok}"
    proof
      assume "ref e \<in> ref ` {d \<in> set st. token (tokenDoc_data d) = tok}"
      then obtain d where d: "d \<in> set st" "token (tokenDoc_data d) = tok" "ref e = ref d" by auto
      then have "e = d" using inj e by (auto dest: inj_onD)
      then show False using d ne by simp
    qed
  qed
qed

lemma notifyToken_located:
  assumes "event_location ev = Some evloc"
  shows "notifyToken m ev d s =
           (Inr (), if attempts evloc (tokenDoc_data d)
                    then sendNotificationToUser m (token (tokenDoc_data d)) ev s else s)"
  using assms
  by (simp add: notifyToken_def attempts_def Let_def truthy_num_def split: option.split)

lemma notifyToken_unlocated:
  assumes "event_location ev = None"
  shows "notifyToken m ev d s =
           (if passes_guard (tokenDoc_data d) then Inl TypeError else Inr (), s)"
  using assms
  by (simp add: notifyToken_def passes_guard_def Let_def split: option.split)

lemma fst_notifyAll_Cons:
  "fst (notifyAll m ev (d # ds) s) =
     fst (notifyToken m ev d s) # fst (notifyAll m ev ds (snd (notifyToken m ev d s)))"
  by (simp split: prod.split)

lemma snd_notifyAll_Cons:
  "snd (notifyAll m ev (d # ds) s) = snd (notifyAll m ev ds (snd (notifyToken m ev d s)))"
  by (simp split: prod.split)

lemma notifyAll_unlocated:
  assumes "event_location ev = None"
  shows "notifyAll m ev ds s =
           (map (\<lambda>d. if passes_guard (tokenDoc_data d) then Inl TypeError else Inr ()) ds, s)"
  using assms by (induction ds) (simp_all add: notifyToken_unlocated)

lemma Promise_all_Inr: "Promise_all (map (\<lambda>d. Inr ()) ds) = Inr ()"
  by (induction ds) simp_all

lemma Promise_all_TypeError:
  "Promise_all (map (\<lambda>d. if P d then Inl TypeError else Inr ()) ds)
   = (if \<exists>d \<in> set ds. P d then Inl TypeError else Inr ())"
  by (induction ds) simp_all

lemma notifyAll_located_results:
  assumes "event_location ev = Some evloc"
  shows "fst (notifyAll m ev ds s) = map (\<lambda>d. Inr ()) ds"
  using assms
  by (induction ds arbitrary: s)
     (simp_all add: fst_notifyAll_Cons notifyToken_located del: notifyAll.simps(2))

lemma notifyAll_located_outbox:
  assumes "event_location ev = Some evloc"
  shows "outbox (snd (notifyAll m ev ds s)) =
           outbox s @ map (\<lambda>d. make_message (token (tokenDoc_data d)) ev)
                        (filter (\<lambda>d. attempts evloc (tokenDoc_data d)) ds)"
  using assms
  by (induction ds arbitrary: s)
     (simp_all add: snd_notifyAll_Cons notifyToken_located outbox_sendNotificationToUser
        del: notifyAll.simps(2))

lemma notifyAll_located_store:
  assumes "event_location ev = Some evloc" "distinct (map ref (store s))"
  shows "store (snd (notifyAll m ev ds s)) =
           filter (\<lambda>e. \<not> (\<exists>d \<in> set ds. attempts evloc (tokenDoc_data d)
                              \<and> not_registered m ev (token (tokenDoc_data d))
                              \<and> token (tokenDoc_data d) = token (tokenDoc_data e)))
                  (store s)"
  using assms
proof (induction ds arbitrary: s)
  case Nil
  show ?case by simp
next
  case (Cons d ds)
  let ?s' = "snd (notifyToken m ev d s)"
  let ?P = "\<lambda>ds e. \<exists>d \<in> set ds. attempts evloc (tokenDoc_data d)
                              \<and> not_registered m ev (token (tokenDoc_data d))
                              \<and> token (tokenDoc_data d) = token (tokenDoc_data e)"
  have step: "store ?s' =
      (if attempts evloc (tokenDoc_data d) \<and> not_registered m ev (token (tokenDoc_data d))
       then filter (\<lambda>e. token (tokenDoc_data e) \<noteq> token (tokenDoc_data d)) (store s)
       else store s)"
  proof (cases "attempts evloc (tokenDoc_data d)")
    case False
    then show ?thesis using Cons.prems(1) by (simp add: notifyToken_located)
  next
    case True
    show ?thesis
    proof (cases "not_registered m ev (token (tokenDoc_data d))")
      case nr: True
      then show ?thesis using True Cons.prems
        by (simp add: notifyToken_located not_registered_def
            store_sendNotificationToUser_pruned prune_distinct)
    next
      case nr: False
      then show ?thesis using True Cons.prems
        by (simp add: notifyToken_located not_registered_def
            store_sendNotificationToUser_other)
    qed
  qed
  have dist: "distinct (map ref (store ?s'))"
    unfolding step using Cons.prems(2) by (simp add: distinct_map_filter)
  have "store (snd (notifyAll m ev (d # ds) s)) = store (snd (notifyAll m ev ds ?s'))"
    by (simp only: snd_notifyAll_Cons)
  also have "\<dots> = filter (\<lambda>e. \<not> (\<exists>d \<in> set ds. attempts evloc (tokenDoc_data d)
                              \<and> not_registered m ev (token (tokenDoc_data d))
                              \<and> token (tokenDoc_data d) = token (tokenDoc_data e))) (store ?s')"
    using Cons.IH [OF Cons.prems(1) dist] .
  also have "\<dots> = filter (\<lambda>e. \<not> (\<exists>d \<in> set (d # ds). attempts evloc (tokenDoc_data d)
                              \<and> not_registered m ev (token (tokenDoc_data d))
                              \<and> token (tokenDoc_data d) = token (tokenDoc_data e))) (store s)"
  proof (cases "attempts evloc (tokenDoc_data d) \<and> not_registered m ev (token (tokenDoc_data d))")
    case True
    have a: "store ?s' = filter (\<lambda>e. token (tokenDoc_data e) \<noteq> token (tokenDoc_data d)) (store s)"
      using True step by simp
    have b: "(token (tokenDoc_data e) \<noteq> token (tokenDoc_data d) \<and> \<not> ?P ds e) = (\<not> ?P (d # ds) e)" for e
      using True by auto
    show ?thesis by (simp only: a filter_filter b)
  next
    case False
    have a: "store ?s' = store s" using False step by auto
    have b: "(\<not> ?P ds e) = (\<not> ?P (d # ds) e)" for e
      using False by auto
    show ?thesis by (simp only: a b)
  qed
  finally show ?case .
qed

lemma attempts_should_notify:
  assumes "searchRadius td \<noteq> Some 0"
  shows "attempts \<lparr>latitude = Some a, longitude = Some b\<rparr> td = should_notify a b td"
  using assms
  by (auto simp: attempts_def should_notify_def truthy_num_def js_le_def js_apply4_def
      split: option.split)

lemma onNewSaleEvent_located:
  assumes "event_location ev = Some evloc"
  shows "fst (onNewSaleEvent m ev s) = Inr ()"
    and "outbox (snd (onNewSaleEvent m ev s)) =
           outbox s @ map (\<lambda>d. make_message (token (tokenDoc_data d)) ev)
                        (filter (\<lambda>d. attempts evloc (tokenDoc_data d)) (store s))"
proof -
  have "fst (onNewSaleEvent m ev s) = Promise_all (fst (notifyAll m ev (store s) s))"
    by (simp add: onNewSaleEvent_def split: prod.split)
  then show "fst (onNewSaleEvent m ev s) = Inr ()"
    by (simp add: notifyAll_located_results [OF assms] Promise_all_Inr)
  have "snd (onNewSaleEvent m ev s) = snd (notifyAll m ev (store s) s)"
    by (simp add: onNewSaleEvent_def split: prod.split)
  then show "outbox (snd (onNewSaleEvent m ev s)) =
           outbox s @ map (\<lambda>d. make_message (token (tokenDoc_data d)) ev)
                        (filter (\<lambda>d. attempts evloc (tokenDoc_data d)) (store s))"
    by (simp add: notifyAll_located_outbox [OF assms])
qed

lemma onNewSaleEvent_unlocated:
  assumes "event_location ev = None"
  shows "onNewSaleEvent m ev s =
           (if \<exists>d \<in> set (store s). passes_guard (tokenDoc_data d) then Inl TypeError else Inr (), s)"
  by (simp add: onNewSaleEvent_def notifyAll_unlocated [OF assms] Promise_all_TypeError)

lemma far_radius: "\<not> 3963 * pi \<le> 10"
  using pi_ge_two by simp

text \<open>
  C1. For a listing with coordinates \<open>(a, b)\<close> and registrations whose stored radius is
  not 0 (the radius of a registration is a positive number), the dispatcher returns
  successfully and hands to the push service exactly one message for each registration
  that has a location and a radius and whose distance to the listing is at most the
  radius, the boundary included, in the order of the documents. A registration for which
  this fails, one lacking location or radius among them, leaves the state as it was:
  nothing is sent and nothing is logged.
\<close>

theorem dispatcher_notifies_iff_within_radius:
  assumes "event_location ev = Some \<lparr>latitude = Some a, longitude = Some b\<rparr>"
    and "\<forall>d \<in> set (store s). searchRadius (tokenDoc_data d) \<noteq> Some 0"
    and "searchRadius (tokenDoc_data reg) \<noteq> Some 0"
  shows "fst (onNewSaleEvent m ev s) = Inr ()
     \<and> outbox (snd (onNewSaleEvent m ev s)) =
         outbox s @ map (\<lambda>d. make_message (token (tokenDoc_data d)) ev)
                      (filter (\<lambda>d. should_notify a b (tokenDoc_data d)) (store s))
     \<and> notifyToken m ev reg s =
         (Inr (), if should_notify a b (tokenDoc_data reg)
                  then sendNotificationToUser m (token (tokenDoc_data reg)) ev s else s)"
proof -
  have "filter (\<lambda>d. attempts \<lparr>latitude = Some a, longitude = Some b\<rparr> (tokenDoc_data d)) (store s)
        = filter (\<lambda>d. should_notify a b (tokenDoc_data d)) (store s)"
    using assms(2) by (intro filter_cong refl) (simp add: attempts_should_notify)
  then show ?thesis
    using onNewSaleEvent_located [OF assms(1), of m s] assms(3)
    by (simp add: notifyToken_located [OF assms(1)] attempts_should_notify)
qed

text \<open>
  An instance of C1: a registration exactly at its radius from the listing is notified;
  one without a location, one without a radius and one out of range are not.
\<close>

theorem dispatcher_notifies_iff_within_radius_witness:
  "event_location ex_event = Some \<lparr>latitude = Some 0, longitude = Some 180\<rparr>
   \<and> map (\<lambda>d. searchRadius (tokenDoc_data d)) (store ex_state)
       = [Some (3963 * pi), Some 10, Some 10, None]
   \<and> fst (onNewSaleEvent (\<lambda>msg. Delivered) ex_event ex_state) = Inr ()
   \<and> outbox (snd (onNewSaleEvent (\<lambda>msg. Delivered) ex_event ex_state)) = [make_message ''tA'' ex_event]
   \<and> notifyToken (\<lambda>msg. Delivered) ex_event reg_unlocated ex_state = (Inr (), ex_state)"
proof -
  have l: "event_location ex_event = Some \<lparr>latitude = Some 0, longitude = Some 180\<rparr>"
    by (simp add: ex_event_def)
  have r: "\<forall>d \<in> set (store ex_state). searchRadius (tokenDoc_data d) \<noteq> Some 0"
    by (simp add: ex_state_def reg_edge_def reg_unlocated_def reg_far_def reg_no_radius_def)
  have u: "searchRadius (tokenDoc_data reg_unlocated) \<noteq> Some 0"
    by (simp add: reg_unlocated_def)
  have s: "should_notify 0 180 (tokenDoc_data reg_edge)"
    "\<not> should_notify 0 180 (tokenDoc_data reg_unlocated)"
    "\<not> should_notify 0 180 (tokenDoc_data reg_far)"
    "\<not> should_notify 0 180 (tokenDoc_data reg_no_radius)"
    using far_radius
    by (simp_all add: should_notify_def reg_edge_def reg_unlocated_def reg_far_def
        reg_no_radius_def server_antipode)
  have t: "token (tokenDoc_data reg_edge) = ''tA''" by (simp add: reg_edge_def)
  have st: "store ex_state = [reg_edge, reg_unlocated, reg_far, reg_no_radius]" "outbox ex_state = []"
    by (simp_all add: ex_state_def)
  show ?thesis
    using dispatcher_notifies_iff_within_radius [OF l r u, of "\<lambda>msg. Delivered"] l
    by (simp add: s t st)
       (simp add: reg_edge_def reg_unlocated_def reg_far_def reg_no_radius_def)
qed

text \<open>
  C4. A listing without a \<open>location\<close> makes the callback of every registration that
  passes the guard throw a \<open>TypeError\<close> when it reads \<open>saleEvent.location.latitude\<close>:
  nothing is sent and nothing is deleted, but the function is rejected instead of
  returning successfully.
\<close>

theorem dispatcher_rejects_unlocated_listing:
  "event_location ex_event_unlocated = None
   \<and> onNewSaleEvent m ex_event_unlocated ex_state = (Inl TypeError, ex_state)"
proof -
  have l: "event_location ex_event_unlocated = None" by (simp add: ex_event_unlocated_def)
  have "passes_guard (tokenDoc_data reg_far)"
    by (simp add: passes_guard_def reg_far_def truthy_num_def)
  then have "\<exists>d \<in> set (store ex_state). passes_guard (tokenDoc_data d)"
    by (simp add: ex_state_def)
  then show ?thesis using l by (simp add: onNewSaleEvent_unlocated)
qed

text \<open>
  C5. With document paths distinct: a delivery answered with the code
  \<open>messaging/registration-token-not-registered\<close> removes every document holding that
  token, whoever owns it, and any other answer leaves the store as it is; a failure is
  written to the console; the result of the function and the messages it hands to the push
  service are the same as if every delivery had succeeded, so no failure stops the other
  registrations; and after the fan-out for a listing with a location the store has lost
  exactly the documents whose token was attempted and answered with that code.
\<close>

theorem delivery_failure_handling:
  assumes "distinct (map ref (store s))"
  shows "(not_registered m ev tok \<longrightarrow>
            store (sendNotificationToUser m tok ev s) =
              filter (\<lambda>e. token (tokenDoc_data e) \<noteq> tok) (store s))
     \<and> (\<not> not_registered m ev tok \<longrightarrow> store (sendNotificationToUser m tok ev s) = store s)
     \<and> (\<forall>code. m (make_message tok ev) = Failed code \<longrightarrow>
            console (sendNotificationToUser m tok ev s) = console s @ [Error code])
     \<and> fst (onNewSaleEvent m ev s) = fst (onNewSaleEvent (\<lambda>msg. Delivered) ev s)
     \<and> outbox (snd (onNewSaleEvent m ev s)) = outbox (snd (onNewSaleEvent (\<lambda>msg. Delivered) ev s))
     \<and> (\<forall>evloc. event_location ev = Some evloc \<longrightarrow>
            store (snd (onNewSaleEvent m ev s)) =
              filter (\<lambda>e. \<not> (\<exists>d \<in> set (store s). attempts evloc (tokenDoc_data d)
                              \<and> not_registered m ev (token (tokenDoc_data d))
                              \<and> token (tokenDoc_data d) = token (tokenDoc_data e)))
                     (store s))"
proof -
  have p1: "not_registered m ev tok \<longrightarrow>
            store (sendNotificationToUser m tok ev s) =
              filter (\<lambda>e. token (tokenDoc_data e) \<noteq> tok) (store s)"
    using assms
    by (simp add: not_registered_def store_sendNotificationToUser_pruned prune_distinct)
  have p2: "\<not> not_registered m ev tok \<longrightarrow> store (sendNotificationToUser m tok ev s) = store s"
    by (simp add: not_registered_def store_sendNotificationToUser_other)
  have p3: "\<forall>code. m (make_message tok ev) = Failed code \<longrightarrow>
            console (sendNotificationToUser m tok ev s) = console s @ [Error code]"
    by (simp add: console_sendNotificationToUser)
  have p45: "fst (onNewSaleEvent m ev s) = fst (onNewSaleEvent (\<lambda>msg. Delivered) ev s)
     \<and> outbox (snd (onNewSaleEvent m ev s)) = outbox (snd (onNewSaleEvent (\<lambda>msg. Delivered) ev s))"
  proof (cases "event_location ev")
    case None
    then show ?thesis by (simp add: onNewSaleEvent_unlocated)
  next
    case (Some evloc)
    then show ?thesis by (simp add: onNewSaleEvent_located)
  qed
  have p6: "\<forall>evloc. event_location ev = Some evloc \<longrightarrow>
            store (snd (onNewSaleEvent m ev s)) =
              filter (\<lambda>e. \<not> (\<exists>d \<in> set (store s). attempts evloc (tokenDoc_data d)
                              \<and> not_registered m ev (token (tokenDoc_data d))
                              \<and> token (tokenDoc_data d) = token (tokenDoc_data e)))
                     (store s)"
  proof (intro allI impI)
    fix evloc assume l: "event_location ev = Some evloc"
    have "snd (onNewSaleEvent m ev s) = snd (notifyAll m ev (store s) s)"
      by (simp add: onNewSaleEvent_def split: prod.split)
    then show "store (snd (onNewSaleEvent m ev s)) =
              filter (\<lambda>e. \<not> (\<exists>d \<in> set (store s). attempts evloc (tokenDoc_data d)
                              \<and> not_registered m ev (token (tokenDoc_data d))
                              \<and> token (tokenDoc_data d) = token (tokenDoc_data e)))
                     (store s)"
      using notifyAll_located_store [OF l assms, of m "store s"] by simp
  qed
  from p1 p2 p3 p45 p6 show ?thesis by blast
qed

text \<open>
  An instance of C5: the token \<open>dead\<close> is held under two owners and both documents are
  removed; the failure of \<open>flaky\<close> with another code is logged and removes nothing.
\<close>

theorem delivery_failure_handling_witness:
  "distinct (map ref (store ex_fanout))
   \<and> store (sendNotificationToUser ex_messaging ''dead'' ex_event ex_fanout) = [reg_flaky, reg_live]
   \<and> store (sendNotificationToUser ex_messaging ''flaky'' ex_event ex_fanout) = store ex_fanout
   \<and> console (sendNotificationToUser ex_messaging ''flaky'' ex_event ex_fanout)
        = [Error (Some ''messaging/internal-error'')]
   \<and> store (snd (onNewSaleEvent ex_messaging ex_event ex_fanout)) = [reg_flaky, reg_live]"
proof -
  have d: "distinct (map ref (store ex_fanout))"
    by (simp add: ex_fanout_def ref_def reg_dead1_def reg_flaky_def reg_dead2_def reg_live_def)
  have l: "event_location ex_event = Some \<lparr>latitude = Some 0, longitude = Some 180\<rparr>"
    by (simp add: ex_event_def)
  have nr: "not_registered ex_messaging ex_event ''dead''" "\<not> not_registered ex_messaging ex_event ''flaky''"
    "\<not> not_registered ex_messaging ex_event ''live''"
    by (simp_all add: not_registered_def ex_messaging_def make_message_def)
  have f: "ex_messaging (make_message ''flaky'' ex_event) = Failed (Some ''messaging/internal-error'')"
    by (simp add: ex_messaging_def make_message_def)
  have tk: "token (tokenDoc_data reg_dead1) = ''dead''" "token (tokenDoc_data reg_dead2) = ''dead''"
    "token (tokenDoc_data reg_flaky) = ''flaky''" "token (tokenDoc_data reg_live) = ''live''"
    by (simp_all add: reg_dead1_def reg_flaky_def reg_dead2_def reg_live_def)
  have at: "attempts \<lparr>latitude = Some 0, longitude = Some 180\<rparr> (tokenDoc_data reg_dead1)"
    by (simp add: attempts_def reg_dead1_def truthy_num_def js_le_def js_apply4_def
        calculateDistance_server_self)
  have st: "store ex_fanout = [reg_dead1, reg_flaky, reg_dead2, reg_live]" "console ex_fanout = []"
    by (simp_all add: ex_fanout_def)
  show ?thesis
    using delivery_failure_handling [OF d, of ex_messaging ex_event "''dead''"]
      delivery_failure_handling [OF d, of ex_messaging ex_event "''flaky''"] d l f at
    by (simp add: nr tk st)
qed

section \<open>Properties of the location tracker\<close>

lemma north_bounds: "0 < 3959 * toRad 0.0005" "3959 * toRad 0.0005 < 0.05"
  using pi_gt_zero pi_less_4 by (simp_all add: toRad_def)

lemma far_bound: "10 < 3959 * toRad 1"
  using pi_ge_two by (simp add: toRad_def)

lemma distance_jitter:
  "calculateDistance_client (pos_latitude ex_here) (pos_longitude ex_here)
     (pos_latitude ex_jitter) (pos_longitude ex_jitter) = 3959 * toRad 0.0005"
proof -
  have "calculateDistance_client 10 20 10.0005 20 = 3959 * toRad (10.0005 - 10)"
    by (rule calculateDistance_client_meridian) simp_all
  moreover have "(10.0005 :: real) - 10 = 0.0005" by simp
  ultimately show ?thesis by (simp add: ex_here_def ex_jitter_def)
qed

lemma distance_moved:
  "calculateDistance_client (pos_latitude ex_here) (pos_longitude ex_here)
     (pos_latitude ex_moved) (pos_longitude ex_moved) = 3959 * toRad 1"
proof -
  have "calculateDistance_client 10 20 11 20 = 3959 * toRad (11 - 10)"
    by (rule calculateDistance_client_meridian) simp_all
  then show ?thesis by (simp add: ex_here_def ex_moved_def)
qed

text \<open>
  C8. The updater returns the new position as a fresh object exactly when there is no
  previous position or the distance from the previous position exceeds 0.1 mile, and the
  stored coordinates then become the new position; otherwise, and so for every move of at
  most 0.1 mile, it returns the previous state itself and the stored coordinates are
  unchanged.
\<close>

theorem location_update_threshold:
  "(onSuccess_updater prev p = Replace p \<longleftrightarrow>
      (case prev of
         None \<Rightarrow> True
       | Some q \<Rightarrow> calculateDistance_client (pos_latitude q) (pos_longitude q)
                     (pos_latitude p) (pos_longitude p) > 0.1))
   \<and> (onSuccess_updater prev p = Replace p \<longrightarrow> onSuccess prev p = Some p)
   \<and> (onSuccess_updater prev p \<noteq> Replace p \<longrightarrow>
        onSuccess_updater prev p = Keep \<and> onSuccess prev p = prev)
   \<and> (\<forall>q. prev = Some q \<and>
            calculateDistance_client (pos_latitude q) (pos_longitude q)
              (pos_latitude p) (pos_longitude p) \<le> 0.1 \<longrightarrow>
            onSuccess_updater prev p = Keep \<and> onSuccess prev p = Some q)"
  by (auto simp: onSuccess_updater_def onSuccess_def setCoordinates_def split: option.split)

text \<open>
  An instance of C8: the first position is stored, a move of about 0.035 mile is dropped,
  a move of about 69 miles replaces the stored position.
\<close>

theorem location_update_threshold_witness:
  "onSuccess None ex_here = Some ex_here
   \<and> onSuccess_updater (Some ex_here) ex_jitter = Keep
   \<and> onSuccess (Some ex_here) ex_jitter = Some ex_here
   \<and> onSuccess_updater (Some ex_here) ex_moved = Replace ex_moved
   \<and> onSuccess (Some ex_here) ex_moved = Some ex_moved"
proof -
  have j: "3959 * toRad 0.0005 \<le> 0.1" using north_bounds(2) by simp
  have m: "3959 * toRad 1 > 0.1" using far_bound by simp
  show ?thesis
    using location_update_threshold [of None ex_here]
      location_update_threshold [of "Some ex_here" ex_jitter]
      location_update_threshold [of "Some ex_here" ex_moved] j m
    by (simp add: distance_jitter distance_moved)
qed

section \<open>Properties of the feed\<close>

lemma processDoc_cases:
  "processDoc c r s =
     (case distance_from c s of
        None \<Rightarrow> Skipped
      | Some d \<Rightarrow>
          if nonzero_coordinates s \<and> d \<le> r
          then (if truthy_str (address s)
                then Pushed \<lparr>entry_sale = s, distance = round1 d, entry_address = address s\<rparr>
                else Awaiting s d)
          else Skipped)"
  by (auto simp: processDoc_def distance_from_def nonzero_coordinates_def truthy_num_def
      js_apply4_def Let_def split: option.split)

lemma processDoc_zero:
  assumes "sale_location s = Some l" "latitude l = Some 0 \<or> longitude l = Some 0"
  shows "processDoc c r s = Skipped"
  using assms by (auto simp: processDoc_def truthy_num_def)

lemma updatedSales_Nil: "updatedSales c r [] = []"
  by (simp add: updatedSales_def)

lemma updatedSales_Cons:
  "updatedSales c r (s # snap) =
     (case processDoc c r s of Pushed e \<Rightarrow> e # updatedSales c r snap | _ \<Rightarrow> updatedSales c r snap)"
  by (simp add: updatedSales_def split: doc_outcome.split)

lemma updatedSales_append:
  "updatedSales c r (xs @ ys) = updatedSales c r xs @ updatedSales c r ys"
  by (induction xs) (simp_all add: updatedSales_Nil updatedSales_Cons split: doc_outcome.split)

lemma entry_sale_updatedSales:
  "map entry_sale (updatedSales c r snap) =
     filter (\<lambda>s. nonzero_coordinates s \<and> spec_in_feed c r s \<and> truthy_str (address s)) snap"
  by (induction snap)
     (auto simp: updatedSales_Nil updatedSales_Cons processDoc_cases spec_in_feed_def
        split: option.split)

lemma updatedSales_entry:
  assumes "e \<in> set (updatedSales c r snap)"
  shows "\<exists>d. distance_from c (entry_sale e) = Some d \<and> d \<le> r \<and> distance e = round1 d
             \<and> entry_address e = address (entry_sale e) \<and> nonzero_coordinates (entry_sale e)
             \<and> entry_sale e \<in> set snap"
  using assms
  by (induction snap)
     (auto simp: updatedSales_Nil updatedSales_Cons processDoc_cases
        split: option.splits if_splits)

text \<open>
  A sale in range that has no address is not in the published array: its callback is
  still waiting for the geocoder when the array is sorted and published.
\<close>

lemma addressless_sale_awaits:
  assumes "\<not> truthy_str (address s)" "nonzero_coordinates s"
    and "distance_from c s = Some d" "d \<le> r"
  shows "processDoc c r s = Awaiting s d"
  using assms by (simp add: processDoc_cases)

lemma published_entries_have_address:
  assumes "e \<in> set (published c r snapshot)"
  shows "truthy_str (address (entry_sale e))"
proof -
  from assms have "entry_sale e \<in> set (map entry_sale (updatedSales c r snapshot))"
    by (simp add: published_def)
  then show ?thesis by (simp only: entry_sale_updatedSales) simp
qed





lemma distance_from_sale_here: "distance_from ex_here sale_here = Some 0"
  by (simp add: distance_from_def ex_here_def sale_here_def js_apply4_def calculateDistance_client_self)


lemma distance_from_sale_north: "distance_from ex_here sale_north = Some (3959 * toRad 0.0005)"
proof -
  have "calculateDistance_client 10 20 10.0005 20 = 3959 * toRad (10.0005 - 10)"
    by (rule calculateDistance_client_meridian) simp_all
  moreover have "(10.0005 :: real) - 10 = 0.0005" by simp
  ultimately show ?thesis
    by (simp add: distance_from_def ex_here_def sale_north_def js_apply4_def)
qed

lemma distance_from_sale_far: "distance_from ex_here sale_far = Some (3959 * toRad 1)"
proof -
  have "calculateDistance_client 10 20 11 20 = 3959 * toRad (11 - 10)"
    by (rule calculateDistance_client_meridian) simp_all
  then show ?thesis
    by (simp add: distance_from_def ex_here_def sale_far_def js_apply4_def)
qed

lemma distance_from_sale_equator: "distance_from ex_equator sale_equator = Some 0"
  by (simp add: distance_from_def ex_equator_def sale_equator_def js_apply4_def calculateDistance_client_self)












text \<open>
  C6, as amended. For a snapshot whose sales all carry a non-empty address, the published
  collection consists of exactly the sales whose latitude and longitude are both present
  and not 0 and whose distance from the tracked location is at most the radius, the
  boundary included; each is published with its distance rounded to one decimal place.
  The listener is a total function: a sale without usable coordinates is left out and
  nothing is raised.
\<close>

theorem feed_members_with_address:
  assumes "\<forall>s \<in> set snapshot. truthy_str (address s)"
  shows "mset (map entry_sale (published c r snapshot)) =
           mset (filter (\<lambda>s. nonzero_coordinates s \<and> spec_in_feed c r s) snapshot)
       \<and> (\<forall>e \<in> set (published c r snapshot).
             \<exists>d. distance_from c (entry_sale e) = Some d \<and> d \<le> r \<and> distance e = round1 d)"
proof -
  have "mset (map entry_sale (published c r snapshot)) = mset (map entry_sale (updatedSales c r snapshot))"
    by (simp add: published_def)
  also have "\<dots> = mset (filter (\<lambda>s. nonzero_coordinates s \<and> spec_in_feed c r s \<and> truthy_str (address s)) snapshot)"
    by (simp only: entry_sale_updatedSales)
  also have "filter (\<lambda>s. nonzero_coordinates s \<and> spec_in_feed c r s \<and> truthy_str (address s)) snapshot
           = filter (\<lambda>s. nonzero_coordinates s \<and> spec_in_feed c r s) snapshot"
    using assms by (intro filter_cong refl) simp
  finally have members: "mset (map entry_sale (published c r snapshot)) =
           mset (filter (\<lambda>s. nonzero_coordinates s \<and> spec_in_feed c r s) snapshot)" .
  have "\<exists>d. distance_from c (entry_sale e) = Some d \<and> d \<le> r \<and> distance e = round1 d"
    if "e \<in> set (published c r snapshot)" for e
  proof -
    from that have "e \<in> set (updatedSales c r snapshot)" by (simp add: published_def)
    from updatedSales_entry [OF this] show ?thesis by blast
  qed
  with members show ?thesis by blast
qed

text \<open>
  An instance of C6 as amended: of four sales with addresses, the one out of range and the
  one at latitude 0 are left out.
\<close>

theorem feed_members_with_address_witness:
  "map (\<lambda>s. truthy_str (address s)) [sale_far, sale_north, sale_equator, sale_here]
     = [True, True, True, True]
   \<and> mset (map entry_sale (published ex_here 10 [sale_far, sale_north, sale_equator, sale_here]))
       = {#sale_north, sale_here#}"
proof -
  have a: "\<forall>s \<in> set [sale_far, sale_north, sale_equator, sale_here]. truthy_str (address s)"
    by (simp add: sale_far_def sale_north_def sale_equator_def sale_here_def truthy_str_def)
  have far: "\<not> spec_in_feed ex_here 10 sale_far"
    using far_bound by (simp add: spec_in_feed_def distance_from_sale_far)
  have north: "nonzero_coordinates sale_north \<and> spec_in_feed ex_here 10 sale_north"
    using north_bounds(2)
    by (simp add: spec_in_feed_def distance_from_sale_north)
       (simp add: sale_north_def nonzero_coordinates_def truthy_num_def)
  have eq: "\<not> nonzero_coordinates sale_equator"
    by (simp add: sale_equator_def nonzero_coordinates_def truthy_num_def)
  have here: "nonzero_coordinates sale_here \<and> spec_in_feed ex_here 10 sale_here"
    by (simp add: spec_in_feed_def distance_from_sale_here)
       (simp add: sale_here_def nonzero_coordinates_def truthy_num_def)
  show ?thesis
    using feed_members_with_address [OF a, of ex_here 10] a far north eq here
    by simp
qed

text \<open>
  C6 as stated fails: a sale at latitude 0 has both coordinates and lies at distance 0
  from the tracked location, yet the published collection is empty.
\<close>

theorem feed_members_counterexample:
  "spec_in_feed ex_equator 10 sale_equator
   \<and> published ex_equator 10 [sale_equator] = []
   \<and> mset (map entry_sale (published ex_equator 10 [sale_equator]))
       \<noteq> mset (filter (spec_in_feed ex_equator 10) [sale_equator])"
proof -
  have a: "spec_in_feed ex_equator 10 sale_equator"
    by (simp add: spec_in_feed_def distance_from_sale_equator)
  have "processDoc ex_equator 10 sale_equator = Skipped"
    by (rule processDoc_zero [where l = "\<lparr>latitude = Some 0, longitude = Some 5\<rparr>"])
       (simp_all add: sale_equator_def)
  then have b: "published ex_equator 10 [sale_equator] = []"
    by (simp add: published_def updatedSales_Cons updatedSales_Nil)
  show ?thesis using a by (simp add: b)
qed

text \<open>
  C10. A sale whose latitude and longitude are both present, one of them being exactly 0,
  is skipped by the listener: the published collection is the same as without it, and no
  published entry stems from it.
\<close>

theorem zero_coordinate_listing_excluded:
  assumes "sale_location s = Some \<lparr>latitude = Some x, longitude = Some y\<rparr>"
    and "x = 0 \<or> y = 0"
  shows "processDoc c r s = Skipped
       \<and> published c r (xs @ s # ys) = published c r (xs @ ys)
       \<and> (\<forall>e \<in> set (published c r snapshot). entry_sale e \<noteq> s)"
proof -
  have sk: "processDoc c r s = Skipped"
    using assms by (intro processDoc_zero [OF assms(1)]) auto
  have "updatedSales c r (xs @ s # ys) = updatedSales c r (xs @ ys)"
    by (simp add: updatedSales_append updatedSales_Cons sk)
  then have same: "published c r (xs @ s # ys) = published c r (xs @ ys)"
    by (simp add: published_def)
  have "\<not> nonzero_coordinates s"
    using assms by (auto simp: nonzero_coordinates_def truthy_num_def)
  then have "entry_sale e \<noteq> s" if "e \<in> set (published c r snapshot)" for e
    using updatedSales_entry [of e c r snapshot] that by (auto simp: published_def)
  with sk same show ?thesis by blast
qed

text \<open>
  An instance of C10: a sale on the equator.
\<close>

theorem zero_coordinate_listing_excluded_witness:
  "sale_location sale_equator = Some \<lparr>latitude = Some 0, longitude = Some 5\<rparr>
   \<and> processDoc ex_equator 10 sale_equator = Skipped
   \<and> published ex_equator 10 [sale_equator] = published ex_equator 10 []
   \<and> sale_equator \<notin> entry_sale ` set (published ex_here 10 [sale_equator, sale_here])"
proof -
  have l: "sale_location sale_equator = Some \<lparr>latitude = Some 0, longitude = Some 5\<rparr>"
    by (simp add: sale_equator_def)
  have z: "(0::real) = 0 \<or> (5::real) = 0" by simp
  show ?thesis
    using zero_coordinate_listing_excluded [OF l z, of ex_equator 10 "[]" "[]"]
      zero_coordinate_listing_excluded [OF l z, of ex_here 10 "[]" "[]" "[sale_equator, sale_here]"] l
    by auto
qed

section \<open>Properties of the bounds estimator\<close>

lemma cos_latitude_nonneg:
  assumes "- 90 \<le> (lat::real)" "lat \<le> 90"
  shows "0 \<le> cos (lat * (pi / 180))"
proof (rule cos_ge_zero)
  have "- 90 * (pi / 180) \<le> lat * (pi / 180)"
    using assms(1) by (intro mult_right_mono) simp_all
  then show "- (pi / 2) \<le> lat * (pi / 180)" by simp
  have "lat * (pi / 180) \<le> 90 * (pi / 180)"
    using assms(2) by (intro mult_right_mono) simp_all
  then show "lat * (pi / 180) \<le> pi / 2" by simp
qed

lemma minOffset_valid_latitude:
  assumes "0 \<le> k" "k \<le> 1" "0 < radius"
  shows "Math_max 0.001 (Math_min (radius / 69.172) (js_divide radius (69.172 * k)))
         = Num (max 0.001 (radius / 69.172))"
proof (cases "k = 0")
  case True
  then show ?thesis using assms by (simp add: js_divide_def)
next
  case False
  then have k: "0 < k" using assms by simp
  have "radius / 69.172 \<le> radius / (69.172 * k)"
    using k assms(2,3) by (intro divide_left_mono) simp_all
  then have "min (radius / 69.172) (radius / (69.172 * k)) = radius / 69.172"
    by (rule min_absorb1)
  moreover have "js_divide radius (69.172 * k) = Num (radius / (69.172 * k))"
    using k by (simp add: js_divide_def)
  ultimately show ?thesis by (simp only: Math_min.simps Math_max.simps)
qed

lemma cos_60_degrees: "cos (60 * (pi / 180)) = 1 / 2"
proof -
  have "60 * (pi / 180) = pi / 3" by simp
  then show ?thesis by (simp only: cos_60)
qed

text \<open>
  C7, as amended. For a center whose latitude is between -90 and 90 degrees and a positive
  radius, the viewport is the square, in degrees, around the center whose half-side is
  \<open>radius / 69.172\<close> or the floor 0.001 if that is larger, in latitude and in longitude
  alike: the offset corrected by the cosine of the latitude is computed, but the smaller
  of the two offsets is used for both axes. The half-side is at least 0.001, so the
  viewport is never of size zero.
\<close>

theorem map_bounds_square_with_floor:
  assumes "- 90 \<le> pos_latitude center" "pos_latitude center \<le> 90" "0 < radius"
  shows "calculateMapBounds center radius =
           Some \<lparr> corner1 = (pos_latitude center - max 0.001 (radius / 69.172),
                              pos_longitude center - max 0.001 (radius / 69.172)),
                   corner2 = (pos_latitude center + max 0.001 (radius / 69.172),
                              pos_longitude center + max 0.001 (radius / 69.172)) \<rparr>
       \<and> 0.001 \<le> max 0.001 (radius / 69.172)"
proof -
  have "0 \<le> cos (pos_latitude center * (pi / 180))"
    using assms(1,2) by (rule cos_latitude_nonneg)
  moreover have "cos (pos_latitude center * (pi / 180)) \<le> 1" by simp
  ultimately show ?thesis
    using minOffset_valid_latitude [of "cos (pos_latitude center * (pi / 180))" radius] assms(3)
    by (simp add: calculateMapBounds_def Let_def)
qed

text \<open>
  An instance of C7 as amended: latitude 60, radius 10 miles.
\<close>

theorem map_bounds_square_with_floor_witness:
  "- 90 \<le> pos_latitude ex_center \<and> pos_latitude ex_center \<le> 90 \<and> (0::real) < 10
   \<and> calculateMapBounds ex_center 10 =
       Some \<lparr> corner1 = (60 - 10 / 69.172, - (10 / 69.172)),
               corner2 = (60 + 10 / 69.172, 10 / 69.172) \<rparr>"
proof -
  have a: "- 90 \<le> pos_latitude ex_center" and b: "pos_latitude ex_center \<le> 90"
    by (simp_all add: ex_center_def)
  have c: "(0::real) < 10" by simp
  have m: "max 0.001 (10 / 69.172) = (10 / 69.172 :: real)" by simp
  show ?thesis
    using map_bounds_square_with_floor [OF a b c] a b
    by (simp add: ex_center_def m)
qed

text \<open>
  C7 as stated fails. At latitude 60 and radius 10 miles the circle reaches
  \<open>20 / 69.172\<close> degrees of longitude east of the center, while the viewport ends at
  \<open>10 / 69.172\<close> degrees: the circle is not inscribed and its easternmost point lies
  outside.
\<close>

theorem map_bounds_counterexample:
  "calculateMapBounds ex_center 10 =
       Some \<lparr> corner1 = (60 - 10 / 69.172, - (10 / 69.172)),
               corner2 = (60 + 10 / 69.172, 10 / 69.172) \<rparr>
   \<and> spec_bounds ex_center 10 =
       \<lparr> corner1 = (60 - 10 / 69.172, - (20 / 69.172)),
         corner2 = (60 + 10 / 69.172, 20 / 69.172) \<rparr>
   \<and> calculateMapBounds ex_center 10 \<noteq> Some (spec_bounds ex_center 10)
   \<and> \<not> contains (the (calculateMapBounds ex_center 10)) (60, 20 / 69.172)"
proof -
  have m: "max 0.001 (10 / 69.172) = (10 / 69.172 :: real)" by simp
  have m2: "max 0.001 (20 / 69.172) = (20 / 69.172 :: real)" by simp
  have q: "js_divide 10 (69.172 * (1 / 2)) = Num (20 / 69.172)"
    by (simp add: js_divide_def)
  have mn: "min (10 / 69.172) (20 / 69.172) = (10 / 69.172 :: real)" by simp
  have code: "calculateMapBounds ex_center 10 =
       Some \<lparr> corner1 = (60 - 10 / 69.172, - (10 / 69.172)),
               corner2 = (60 + 10 / 69.172, 10 / 69.172) \<rparr>"
    unfolding calculateMapBounds_def Let_def ex_center_def
    by (simp only: position.simps cos_60_degrees q Math_min.simps Math_max.simps mn m num.case)
       simp
  have q2: "(10::real) / (69.172 * (1 / 2)) = 20 / 69.172" by simp
  have spec: "spec_bounds ex_center 10 =
       \<lparr> corner1 = (60 - 10 / 69.172, - (20 / 69.172)),
         corner2 = (60 + 10 / 69.172, 20 / 69.172) \<rparr>"
    unfolding spec_bounds_def Let_def ex_center_def
    by (simp only: position.simps cos_60_degrees q2 m m2) simp
  show ?thesis
    by (simp add: code spec contains_def)
qed

end
